theory Spec2Isabelle
  imports Complex_Main "HOL-Library.Sublist" "HOL-Library.Multiset"
begin

section \<open>Strings\<close>

text \<open>
  JavaScript strings are modelled as \<open>string\<close>; a character stands for a code unit in
  the range 0..255 (ASCII and Latin-1). \<open>toLowerCase\<close> sends \<open>A\<close>..\<open>Z\<close> and the Latin-1
  capitals (192..214, 216..222) to the letter 32 places further and leaves every other
  character alone. Strings with code units beyond 255, where the lowering is not one
  character for one, are the matter of a later section.
\<close>

definition toLowerCase_char :: "char \<Rightarrow> char" where
  "toLowerCase_char c =
     (let n = (of_char c :: nat) in
      if (65 \<le> n \<and> n \<le> 90) \<or> (192 \<le> n \<and> n \<le> 214) \<or> (216 \<le> n \<and> n \<le> 222)
      then char_of (n + 32) else c)"

definition toLowerCase :: "string \<Rightarrow> string" where
  "toLowerCase s = map toLowerCase_char s"

text \<open>\<open>s.includes(t)\<close>: \<open>t\<close> occurs in \<open>s\<close> as a contiguous run of characters.\<close>

fun str_includes :: "string \<Rightarrow> string \<Rightarrow> bool" where
  "str_includes [] t = (t = [])"
| "str_includes (c # cs) t = (prefix t (c # cs) \<or> str_includes cs t)"

text \<open>
  Truthiness of an optional string: \<open>undefined\<close> and the empty string are falsy.
\<close>

definition truthy_str :: "string option \<Rightarrow> bool" where
  "truthy_str v = (case v of None \<Rightarrow> False | Some s \<Rightarrow> s \<noteq> [])"

section \<open>Log entries and their classification (SystemLogs.tsx)\<close>

datatype severity = Low | Medium | High | Critical

record LogEntry =
  timestamp :: string
  source :: string
  content :: string
  severity :: "severity option"
  type :: "string option"

text \<open>
  The callback of \<open>logsData.map\<close> in \<open>loadData\<close>: a missing severity is derived from the
  content, a missing type from the source.
\<close>

definition enhance_log :: "LogEntry \<Rightarrow> LogEntry" where
  "enhance_log lg =
     (let lg1 =
        (if severity lg = None then
           (if str_includes (toLowerCase (content lg)) ''critical'' then
              lg\<lparr>severity := Some Critical\<rparr>
            else if str_includes (toLowerCase (content lg)) ''alert''
                  \<or> str_includes (toLowerCase (content lg)) ''warning'' then
              lg\<lparr>severity := Some High\<rparr>
            else if str_includes (toLowerCase (content lg)) ''notice'' then
              lg\<lparr>severity := Some Medium\<rparr>
            else lg\<lparr>severity := Some Low\<rparr>)
         else lg)
      in
        (if \<not> truthy_str (type lg1) then
           (if str_includes (source lg1) ''ids'' \<or> str_includes (source lg1) ''snort'' then
              lg1\<lparr>type := Some ''intrusion''\<rparr>
            else if str_includes (source lg1) ''auth'' then
              lg1\<lparr>type := Some ''authentication''\<rparr>
            else if str_includes (source lg1) ''fw'' \<or> str_includes (source lg1) ''firewall'' then
              lg1\<lparr>type := Some ''firewall''\<rparr>
            else lg1\<lparr>type := Some ''system''\<rparr>)
         else lg1))"

definition enhancedLogs :: "LogEntry list \<Rightarrow> LogEntry list" where
  "enhancedLogs logsData = map enhance_log logsData"

section \<open>The log view: filter and sort (SystemLogs.tsx, \<open>processedLogs\<close>)\<close>

datatype sort_field = ByTimestamp | BySource | BySeverity

datatype sort_direction = Asc | Desc

definition severity_name :: "severity \<Rightarrow> string" where
  "severity_name s =
     (case s of Low \<Rightarrow> ''low'' | Medium \<Rightarrow> ''medium'' | High \<Rightarrow> ''high''
      | Critical \<Rightarrow> ''critical'')"

text \<open>
  The free-text predicate of the first \<open>result.filter\<close>. The third disjunct is
  \<open>log.type && log.type.toLowerCase().includes(...)\<close>.
\<close>

definition matches_filter :: "string \<Rightarrow> LogEntry \<Rightarrow> bool" where
  "matches_filter filter_text lg =
     (str_includes (toLowerCase (source lg)) (toLowerCase filter_text)
      \<or> str_includes (toLowerCase (content lg)) (toLowerCase filter_text)
      \<or> (case type lg of None \<Rightarrow> False
          | Some t \<Rightarrow> t \<noteq> [] \<and> str_includes (toLowerCase t) (toLowerCase filter_text)))"

text \<open>\<open>log.severity === selectedSeverity\<close>, the predicate of the second filter.\<close>

definition matches_severity :: "string \<Rightarrow> LogEntry \<Rightarrow> bool" where
  "matches_severity sel lg = (map_option severity_name (severity lg) = Some sel)"

text \<open>
  The object literal \<open>severityOrder\<close>, read at \<open>a.severity\<close>: an absent severity reads
  the property named \<open>undefined\<close>.
\<close>

definition severityOrder :: "severity option \<Rightarrow> int" where
  "severityOrder s =
     (case s of Some Critical \<Rightarrow> 0 | Some High \<Rightarrow> 1 | Some Medium \<Rightarrow> 2 | Some Low \<Rightarrow> 3
      | None \<Rightarrow> 4)"

text \<open>\<open>a || b\<close> on numbers: the number 0 is falsy.\<close>

definition or_num :: "int \<Rightarrow> int \<Rightarrow> int" where
  "or_num a b = (if a = 0 then b else a)"

text \<open>
  The body of the comparator before the direction is applied. Two functions of the
  platform are parameters: \<open>getTime\<close> stands for \<open>new Date(s).getTime()\<close> in
  milliseconds, \<open>None\<close> being NaN (an invalid date), and \<open>localeCompare\<close> for
  \<open>a.localeCompare(b)\<close>. A result \<open>None\<close> is NaN.
\<close>

definition comparison ::
  "(string \<Rightarrow> int option) \<Rightarrow> (string \<Rightarrow> string \<Rightarrow> int) \<Rightarrow> sort_field
    \<Rightarrow> LogEntry \<Rightarrow> LogEntry \<Rightarrow> int option" where
  "comparison getTime localeCompare sortField a b =
     (case sortField of
        ByTimestamp \<Rightarrow>
          (case (getTime (timestamp a), getTime (timestamp b)) of
             (Some x, Some y) \<Rightarrow> Some (x - y)
           | _ \<Rightarrow> None)
      | BySource \<Rightarrow> Some (localeCompare (source a) (source b))
      | BySeverity \<Rightarrow>
          Some (or_num (severityOrder (severity a)) 4 - or_num (severityOrder (severity b)) 4))"

definition comparefn ::
  "(string \<Rightarrow> int option) \<Rightarrow> (string \<Rightarrow> string \<Rightarrow> int) \<Rightarrow> sort_field \<Rightarrow> sort_direction
    \<Rightarrow> LogEntry \<Rightarrow> LogEntry \<Rightarrow> int option" where
  "comparefn getTime localeCompare sortField sortDirection a b =
     (case sortDirection of
        Asc \<Rightarrow> comparison getTime localeCompare sortField a b
      | Desc \<Rightarrow> map_option uminus (comparison getTime localeCompare sortField a b))"

text \<open>
  \<open>Array.prototype.sort\<close> with a comparator. The language fixes that a NaN from the
  comparator counts as 0 and that the sort is stable; for a consistent comparator the
  result is then determined, and a stable insertion sort computes it. (Only the
  timestamp comparator with invalid dates can be inconsistent; the order is then left
  to the engine, and this model fixes one.)
\<close>

definition SortCompare :: "('a \<Rightarrow> 'a \<Rightarrow> int option) \<Rightarrow> 'a \<Rightarrow> 'a \<Rightarrow> int" where
  "SortCompare cmp x y = (case cmp x y of None \<Rightarrow> 0 | Some v \<Rightarrow> v)"

fun sort_insert :: "('a \<Rightarrow> 'a \<Rightarrow> int option) \<Rightarrow> 'a \<Rightarrow> 'a list \<Rightarrow> 'a list" where
  "sort_insert cmp x [] = [x]"
| "sort_insert cmp x (y # ys) =
     (if SortCompare cmp x y \<le> 0 then x # y # ys else y # sort_insert cmp x ys)"

definition array_sort :: "('a \<Rightarrow> 'a \<Rightarrow> int option) \<Rightarrow> 'a list \<Rightarrow> 'a list" where
  "array_sort cmp xs = foldr (sort_insert cmp) xs []"

definition processedLogs ::
  "(string \<Rightarrow> int option) \<Rightarrow> (string \<Rightarrow> string \<Rightarrow> int) \<Rightarrow> LogEntry list \<Rightarrow> string
    \<Rightarrow> sort_field \<Rightarrow> sort_direction \<Rightarrow> string option \<Rightarrow> LogEntry list" where
  "processedLogs getTime localeCompare logs filter_text sortField sortDirection selectedSeverity =
     (let result1 = (if filter_text \<noteq> [] then filter (matches_filter filter_text) logs else logs);
          result2 =
            (case selectedSeverity of
               None \<Rightarrow> result1
             | Some sel \<Rightarrow> if sel \<noteq> [] then filter (matches_severity sel) result1 else result1)
      in array_sort (comparefn getTime localeCompare sortField sortDirection) result2)"

section \<open>The log view on strings of UTF-16 code units\<close>

text \<open>
  A JavaScript string is a sequence of 16-bit code units, and \<open>toLowerCase\<close> follows the
  Unicode tables: beyond Latin-1 a character may lower to more than one code unit. To
  state what the text filter does on such strings, the view is given a second time with
  strings as lists of code units. \<open>ustr\<close> reads an 8-bit string as code units.

  \<open>toLowerCase\<close> is written out for the code units below 256 (as \<open>toLowerCase_char\<close>
  above), for U+0130, the capital I with a dot above (304), which lowers to the two
  code units U+0069 U+0307, and for U+0307, the combining dot above (775), which has no
  case. The lowering of every other code unit is left to the parameter \<open>rest\<close>; no result
  below depends on it.
\<close>

type_synonym ustring = "nat list"

definition ustr :: "string \<Rightarrow> ustring" where
  "ustr s = map of_char s"

definition toLowerCase16_unit :: "(nat \<Rightarrow> nat list) \<Rightarrow> nat \<Rightarrow> nat list" where
  "toLowerCase16_unit rest c =
     (if c < 256 then
        (if (65 \<le> c \<and> c \<le> 90) \<or> (192 \<le> c \<and> c \<le> 214) \<or> (216 \<le> c \<and> c \<le> 222)
         then [c + 32] else [c])
      else if c = 304 then [105, 775]
      else if c = 775 then [775]
      else rest c)"

definition toLowerCase16 :: "(nat \<Rightarrow> nat list) \<Rightarrow> ustring \<Rightarrow> ustring" where
  "toLowerCase16 rest s = concat (map (toLowerCase16_unit rest) s)"

fun includes16 :: "ustring \<Rightarrow> ustring \<Rightarrow> bool" where
  "includes16 [] t = (t = [])"
| "includes16 (c # cs) t = (prefix t (c # cs) \<or> includes16 cs t)"

record LogEntry16 =
  timestamp16 :: ustring
  source16 :: ustring
  content16 :: ustring
  severity16 :: "severity option"
  type16 :: "ustring option"

definition matches_filter16 :: "(nat \<Rightarrow> nat list) \<Rightarrow> ustring \<Rightarrow> LogEntry16 \<Rightarrow> bool" where
  "matches_filter16 rest filter_text lg =
     (includes16 (toLowerCase16 rest (source16 lg)) (toLowerCase16 rest filter_text)
      \<or> includes16 (toLowerCase16 rest (content16 lg)) (toLowerCase16 rest filter_text)
      \<or> (case type16 lg of None \<Rightarrow> False
          | Some t \<Rightarrow> t \<noteq> []
              \<and> includes16 (toLowerCase16 rest t) (toLowerCase16 rest filter_text)))"

definition matches_severity16 :: "ustring \<Rightarrow> LogEntry16 \<Rightarrow> bool" where
  "matches_severity16 sel lg =
     (map_option (\<lambda>s. ustr (severity_name s)) (severity16 lg) = Some sel)"

definition comparison16 ::
  "(ustring \<Rightarrow> int option) \<Rightarrow> (ustring \<Rightarrow> ustring \<Rightarrow> int) \<Rightarrow> sort_field
    \<Rightarrow> LogEntry16 \<Rightarrow> LogEntry16 \<Rightarrow> int option" where
  "comparison16 getTime localeCompare sortField a b =
     (case sortField of
        ByTimestamp \<Rightarrow>
          (case (getTime (timestamp16 a), getTime (timestamp16 b)) of
             (Some x, Some y) \<Rightarrow> Some (x - y)
           | _ \<Rightarrow> None)
      | BySource \<Rightarrow> Some (localeCompare (source16 a) (source16 b))
      | BySeverity \<Rightarrow>
          Some (or_num (severityOrder (severity16 a)) 4
                - or_num (severityOrder (severity16 b)) 4))"

definition comparefn16 ::
  "(ustring \<Rightarrow> int option) \<Rightarrow> (ustring \<Rightarrow> ustring \<Rightarrow> int) \<Rightarrow> sort_field
    \<Rightarrow> sort_direction \<Rightarrow> LogEntry16 \<Rightarrow> LogEntry16 \<Rightarrow> int option" where
  "comparefn16 getTime localeCompare sortField sortDirection a b =
     (case sortDirection of
        Asc \<Rightarrow> comparison16 getTime localeCompare sortField a b
      | Desc \<Rightarrow> map_option uminus (comparison16 getTime localeCompare sortField a b))"

definition processedLogs16 ::
  "(nat \<Rightarrow> nat list) \<Rightarrow> (ustring \<Rightarrow> int option) \<Rightarrow> (ustring \<Rightarrow> ustring \<Rightarrow> int)
    \<Rightarrow> LogEntry16 list \<Rightarrow> ustring \<Rightarrow> sort_field \<Rightarrow> sort_direction \<Rightarrow> ustring option
    \<Rightarrow> LogEntry16 list" where
  "processedLogs16 rest getTime localeCompare entries filter_text sortField sortDirection
     selectedSeverity =
     (let result1 =
            (if filter_text \<noteq> [] then filter (matches_filter16 rest filter_text) entries
             else entries);
          result2 =
            (case selectedSeverity of
               None \<Rightarrow> result1
             | Some sel \<Rightarrow>
                 if sel \<noteq> [] then filter (matches_severity16 sel) result1 else result1)
      in array_sort (comparefn16 getTime localeCompare sortField sortDirection) result2)"

text \<open>An entry of 8-bit strings read as an entry of code units.\<close>

definition widen :: "LogEntry \<Rightarrow> LogEntry16" where
  "widen lg =
     \<lparr>timestamp16 = ustr (timestamp lg), source16 = ustr (source lg),
      content16 = ustr (content lg), severity16 = severity lg,
      type16 = map_option ustr (type lg)\<rparr>"

section \<open>Refresh cycles\<close>

text \<open>
  The pages import their fetch functions from the module \<open>api\<close>. What a page sees of
  a fetch is a promise, and that is what is taken here: a fetch settles with a value or
  is rejected, and its outcome is an argument of the functions below. The reason of a
  rejection is kept as a message.
\<close>

datatype fetch_error = FetchError string

type_synonym 'a fetched = "fetch_error + 'a"

subsection \<open>SystemLogs.tsx\<close>

record AlertSummary =
  total_alerts :: int
  by_type :: "(string \<times> int) list"
  by_severity :: "(string \<times> int) list"

record ThreatSummary =
  threat_total_alerts :: int
  alerts_last_hour :: int
  alerts_last_day :: int
  severity_counts :: "(string \<times> int) list"
  top_threats :: "(string \<times> int) list"

text \<open>The state hooks of the component that \<open>loadData\<close> writes.\<close>

record SystemLogs_state =
  logs :: "LogEntry list"
  loading :: bool
  alertSummary :: "AlertSummary option"
  threatSummary :: "ThreatSummary option"

definition SystemLogs_init :: SystemLogs_state where
  "SystemLogs_init =
     \<lparr>logs = [], loading = True, alertSummary = None, threatSummary = None\<rparr>"

text \<open>
  \<open>loadData\<close> in two halves, split at its \<open>await\<close>: what runs when it is called, and what
  runs when \<open>Promise.all\<close> has settled. \<open>Promise.all\<close> is rejected as soon as one of the
  three fetches is; the \<open>catch\<close> block only writes to the console, and \<open>finally\<close> clears
  \<open>loading\<close>.
\<close>

definition loadData_begin :: "SystemLogs_state \<Rightarrow> SystemLogs_state" where
  "loadData_begin st = st\<lparr>loading := True\<rparr>"

definition loadData_settle ::
  "LogEntry list fetched \<Rightarrow> AlertSummary fetched \<Rightarrow> ThreatSummary fetched
    \<Rightarrow> SystemLogs_state \<Rightarrow> SystemLogs_state" where
  "loadData_settle r_logs r_alert r_threat st =
     (case (r_logs, r_alert, r_threat) of
        (Inr logsData, Inr alertData, Inr threatData) \<Rightarrow>
          st\<lparr>logs := enhancedLogs logsData,
             alertSummary := Some alertData,
             threatSummary := Some threatData,
             loading := False\<rparr>
      | _ \<Rightarrow> st\<lparr>loading := False\<rparr>)"

definition loadData ::
  "LogEntry list fetched \<Rightarrow> AlertSummary fetched \<Rightarrow> ThreatSummary fetched
    \<Rightarrow> SystemLogs_state \<Rightarrow> SystemLogs_state" where
  "loadData r_logs r_alert r_threat st =
     loadData_settle r_logs r_alert r_threat (loadData_begin st)"

subsection \<open>Analytics.tsx\<close>

text \<open>
  The payloads are of type \<open>any\<close> in the source and are type parameters here; the clock
  of \<open>new Date()\<close> is an argument.
\<close>

record ('an, 'al, 'nw, 'mt) Analytics_state =
  analytics :: "'an option"
  alertsData :: "'al list"
  networkData :: "'nw list"
  metricsData :: "'mt list"
  an_loading :: bool
  lastRefreshed :: int

text \<open>
  \<open>loadData\<close> starts four promise chains, each with its own \<open>then\<close> and \<open>catch\<close>. Each
  chain writes one hook of its own when its fetch settles with a value and nothing when
  it is rejected.
\<close>

definition on_analytics ::
  "int \<Rightarrow> 'an fetched \<Rightarrow> ('an, 'al, 'nw, 'mt) Analytics_state
    \<Rightarrow> ('an, 'al, 'nw, 'mt) Analytics_state" where
  "on_analytics now r st =
     (case r of Inr d \<Rightarrow> st\<lparr>analytics := Some d, lastRefreshed := now\<rparr> | Inl e \<Rightarrow> st)"

definition on_alerts ::
  "'al list fetched \<Rightarrow> ('an, 'al, 'nw, 'mt) Analytics_state
    \<Rightarrow> ('an, 'al, 'nw, 'mt) Analytics_state" where
  "on_alerts r st = (case r of Inr d \<Rightarrow> st\<lparr>alertsData := d\<rparr> | Inl e \<Rightarrow> st)"

definition on_network ::
  "'nw list fetched \<Rightarrow> ('an, 'al, 'nw, 'mt) Analytics_state
    \<Rightarrow> ('an, 'al, 'nw, 'mt) Analytics_state" where
  "on_network r st = (case r of Inr d \<Rightarrow> st\<lparr>networkData := d\<rparr> | Inl e \<Rightarrow> st)"

definition on_metrics ::
  "'mt list fetched \<Rightarrow> ('an, 'al, 'nw, 'mt) Analytics_state
    \<Rightarrow> ('an, 'al, 'nw, 'mt) Analytics_state" where
  "on_metrics r st = (case r of Inr d \<Rightarrow> st\<lparr>metricsData := d\<rparr> | Inl e \<Rightarrow> st)"

text \<open>
  One whole cycle: \<open>setLoading(false)\<close>, then the four settlements. They write
  different hooks, so the order in which the promises settle does not matter.
\<close>

definition Analytics_loadData ::
  "int \<Rightarrow> 'an fetched \<Rightarrow> 'al list fetched \<Rightarrow> 'nw list fetched \<Rightarrow> 'mt list fetched
    \<Rightarrow> ('an, 'al, 'nw, 'mt) Analytics_state \<Rightarrow> ('an, 'al, 'nw, 'mt) Analytics_state" where
  "Analytics_loadData now r_an r_al r_nw r_mt st =
     on_metrics r_mt (on_network r_nw (on_alerts r_al (on_analytics now r_an
       (st\<lparr>an_loading := False\<rparr>))))"

subsection \<open>The timer of a view\<close>

text \<open>
  The effect of each page is \<open>loadData(); const interval = setInterval(loadData, ...);
  return () => clearInterval(interval)\<close>. A view is its hooks, whether its timer is set
  and the number of calls of \<open>loadData\<close> that have not settled yet. \<open>Mount\<close> is the run
  of the effect, \<open>Tick\<close> the timer firing, \<open>Settle\<close> the completion of one call with its
  results, \<open>Unmount\<close> the clean-up.
\<close>

record 'ui view_context =
  ui :: 'ui
  timer :: bool
  in_flight :: nat

datatype 'r event = Mount | Tick | Settle 'r | Unmount

fun step ::
  "('ui \<Rightarrow> 'ui) \<Rightarrow> ('r \<Rightarrow> 'ui \<Rightarrow> 'ui) \<Rightarrow> 'ui view_context \<Rightarrow> 'r event \<Rightarrow> 'ui view_context" where
  "step start settle c Mount =
     c\<lparr>ui := start (ui c), timer := True, in_flight := in_flight c + 1\<rparr>"
| "step start settle c Tick =
     (if timer c then c\<lparr>ui := start (ui c), in_flight := in_flight c + 1\<rparr> else c)"
| "step start settle c (Settle r) =
     (if in_flight c = 0 then c
      else c\<lparr>ui := settle r (ui c), in_flight := in_flight c - 1\<rparr>)"
| "step start settle c Unmount = c\<lparr>timer := False\<rparr>"

definition run ::
  "('ui \<Rightarrow> 'ui) \<Rightarrow> ('r \<Rightarrow> 'ui \<Rightarrow> 'ui) \<Rightarrow> 'ui view_context \<Rightarrow> 'r event list \<Rightarrow> 'ui view_context" where
  "run start settle c evs = foldl (step start settle) c evs"

text \<open>The log view as such a context.\<close>

type_synonym logs_results =
  "LogEntry list fetched \<times> AlertSummary fetched \<times> ThreatSummary fetched"

definition SystemLogs_step ::
  "SystemLogs_state view_context \<Rightarrow> logs_results event \<Rightarrow> SystemLogs_state view_context" where
  "SystemLogs_step =
     step loadData_begin (\<lambda>(r_logs, r_alert, r_threat). loadData_settle r_logs r_alert r_threat)"

definition SystemLogs_run ::
  "logs_results event list \<Rightarrow> SystemLogs_state view_context" where
  "SystemLogs_run evs =
     foldl SystemLogs_step \<lparr>ui = SystemLogs_init, timer = False, in_flight = 0\<rparr> evs"

section \<open>The overview (Overview.tsx)\<close>

text \<open>
  JavaScript numbers are taken as reals. A metric sample is an object of type \<open>any\<close>; the
  record has the properties that the gauges read, each possibly absent. The network
  readings use their properties without a guard.
\<close>

record MetricSample =
  cpu_percent :: "real option"
  memory_percent :: "real option"
  load :: "real option"
  swap_percent :: "real option"
  disk_percent :: "real option"
  processes :: "real option"
  memory_total :: "real option"
  memory_used :: "real option"

record NetworkSample =
  incoming_mbps :: real
  outgoing_kbps :: real
  total_incoming_gb :: real
  total_outgoing_mb :: real
  packet_loss_mb :: real

record Status =
  status :: string
  uptime :: real
  last_update :: string

record ('th, 'ua, 'as, 'lg) Overview_state =
  ov_status :: Status
  ov_threatSummary :: "'th option"
  userActivity :: "'ua list"
  metrics :: "MetricSample list"
  ov_networkData :: "NetworkSample list"
  ov_alertSummary :: "'as option"
  ov_logs :: "'lg list"
  ov_loading :: bool
  ov_lastRefreshed :: int

definition Overview_init :: "int \<Rightarrow> ('th, 'ua, 'as, 'lg) Overview_state" where
  "Overview_init now =
     \<lparr>ov_status = \<lparr>status = ''loading'', uptime = 0, last_update = []\<rparr>,
      ov_threatSummary = None, userActivity = [], metrics = [], ov_networkData = [],
      ov_alertSummary = None, ov_logs = [], ov_loading = True, ov_lastRefreshed = now\<rparr>"

text \<open>
  \<open>loadData\<close> of the overview awaits \<open>Promise.all\<close> of seven fetches: the hooks are
  written when all seven have a value, and \<open>finally\<close> clears \<open>loading\<close> in either case.
\<close>

definition Overview_loadData ::
  "int \<Rightarrow> Status fetched \<Rightarrow> 'th fetched \<Rightarrow> 'ua list fetched \<Rightarrow> MetricSample list fetched
    \<Rightarrow> NetworkSample list fetched \<Rightarrow> 'as fetched \<Rightarrow> 'lg list fetched
    \<Rightarrow> ('th, 'ua, 'as, 'lg) Overview_state \<Rightarrow> ('th, 'ua, 'as, 'lg) Overview_state" where
  "Overview_loadData now r_status r_threat r_activity r_metrics r_network r_alert r_logs st =
     (case (r_status, r_threat, r_activity, r_metrics, r_network, r_alert, r_logs) of
        (Inr statusData, Inr threatData, Inr activityData, Inr metricsData', Inr networkData',
         Inr alertData, Inr logsData) \<Rightarrow>
          st\<lparr>ov_status := statusData,
             ov_threatSummary := Some threatData,
             userActivity := activityData,
             metrics := metricsData',
             ov_networkData := networkData',
             ov_alertSummary := Some alertData,
             ov_logs := logsData,
             ov_lastRefreshed := now,
             ov_loading := False\<rparr>
      | _ \<Rightarrow> st\<lparr>ov_loading := False\<rparr>)"

definition latestMetrics :: "MetricSample list \<Rightarrow> MetricSample" where
  "latestMetrics ms =
     (if length ms > 0 then last ms
      else \<lparr>cpu_percent = Some 0, memory_percent = Some 0, load = Some 0,
             swap_percent = Some 0, disk_percent = Some 0, processes = Some 0,
             memory_total = Some 0, memory_used = Some 0\<rparr>)"

text \<open>
  \<open>Math.round(x * 100) / 100\<close>; \<open>Math.round\<close> rounds a half upwards. The page
  multiplies and divides in binary64, so at some inputs it shows another value than
  this real-number reading (at 1.005 the page shows 1); the two agree at 0, the only
  value at which the results below use it.
\<close>

definition round2 :: "real \<Rightarrow> real" where
  "round2 x = of_int \<lfloor>x * 100 + 1 / 2\<rfloor> / 100"

definition inboundTraffic :: "NetworkSample list \<Rightarrow> real" where
  "inboundTraffic nd = (if length nd > 0 then round2 (incoming_mbps (last nd)) else 0)"

definition outboundTraffic :: "NetworkSample list \<Rightarrow> real" where
  "outboundTraffic nd = (if length nd > 0 then round2 (outgoing_kbps (last nd)) else 0)"

definition totalInbound :: "NetworkSample list \<Rightarrow> real" where
  "totalInbound nd = (if length nd > 0 then round2 (total_incoming_gb (last nd)) else 0)"

definition totalOutbound :: "NetworkSample list \<Rightarrow> real" where
  "totalOutbound nd = (if length nd > 0 then round2 (total_outgoing_mb (last nd)) else 0)"

definition packetLoss :: "NetworkSample list \<Rightarrow> real" where
  "packetLoss nd = (if length nd > 0 then round2 (packet_loss_mb (last nd)) else 0)"

text \<open>\<open>v || d\<close> on a property that may be absent: \<open>undefined\<close> and 0 are falsy.\<close>

definition or_default :: "real option \<Rightarrow> real \<Rightarrow> real" where
  "or_default v d = (case v of None \<Rightarrow> d | Some x \<Rightarrow> if x = 0 then d else x)"

text \<open>
  The numbers that the gauges of the page show. The load gauge is
  \<open>Math.min(latestMetrics.load, 3)\<close>, NaN (here \<open>None\<close>) when the property is absent; the
  memory readings are \<open>v ? v / 1024 : d\<close>. Left out are the formatting by \<open>toFixed\<close>, the
  text under the load gauge (with its fallback \<open>1.24\<close>) and the bar of the disk usage
  (\<open>disk_percent || 16.77\<close>, one more literal default of the same kind).
\<close>

record Gauges =
  cpu_gauge :: "real option"
  memory_gauge :: "real option"
  load_gauge :: "real option"
  swap_gauge :: real
  disk_gauge :: real
  process_count :: real
  memory_used_gb :: real
  memory_total_gb :: real
  inbound :: real
  outbound :: real
  total_inbound :: real
  total_outbound :: real
  packet_loss :: real

definition gauges :: "MetricSample list \<Rightarrow> NetworkSample list \<Rightarrow> Gauges" where
  "gauges ms nd =
     (let m = latestMetrics ms in
      \<lparr>cpu_gauge = cpu_percent m,
       memory_gauge = memory_percent m,
       load_gauge = map_option (\<lambda>l. min l 3) (load m),
       swap_gauge = or_default (swap_percent m) 2.68,
       disk_gauge = or_default (disk_percent m) 15.926,
       process_count = or_default (processes m) 16,
       memory_used_gb =
         (case memory_used m of None \<Rightarrow> 21.464
          | Some v \<Rightarrow> if v = 0 then 21.464 else v / 1024),
       memory_total_gb =
         (case memory_total m of None \<Rightarrow> 31.342
          | Some v \<Rightarrow> if v = 0 then 31.342 else v / 1024),
       inbound = inboundTraffic nd,
       outbound = outboundTraffic nd,
       total_inbound = totalInbound nd,
       total_outbound = totalOutbound nd,
       packet_loss = packetLoss nd\<rparr>)"

text \<open>
  What the page renders: the loading screen while \<open>loading\<close> is set, the gauges after.
  Where the latest sample lacks \<open>cpu_percent\<close> or \<open>memory_percent\<close> the page throws in
  \<open>toFixed\<close>; here the reading is \<open>None\<close>. No result below is about such a sample.
\<close>

datatype Overview_view = LoadingScreen | Dashboard Gauges

definition Overview_render :: "('th, 'ua, 'as, 'lg) Overview_state \<Rightarrow> Overview_view" where
  "Overview_render st =
     (if ov_loading st then LoadingScreen
      else Dashboard (gauges (metrics st) (ov_networkData st)))"

section \<open>The words of the specification\<close>

text \<open>
  A case-insensitive occurrence of \<open>k\<close> in \<open>s\<close>, as the specification words it: some
  contiguous part of \<open>s\<close> equals \<open>k\<close> up to the case of its letters. The case-sensitive
  occurrence is \<open>sublist\<close> of the library.
\<close>

definition contains_ci :: "string \<Rightarrow> string \<Rightarrow> bool" where
  "contains_ci s k = (\<exists>w. sublist w s \<and> toLowerCase w = toLowerCase k)"

text \<open>
  The same on code units, with the case of a letter given by a table of its own: the
  pairs of a capital and its small letter in ASCII and Latin-1. Two code units are the
  same letter when they are equal or form such a pair; \<open>k\<close> occurs in \<open>s\<close> without regard
  to case when some contiguous part of \<open>s\<close> agrees with \<open>k\<close> letter by letter. \<open>latin1\<close>
  holds of the strings all of whose code units are below 256.
\<close>

definition case_pairs :: "(nat \<times> nat) list" where
  "case_pairs =
     zip (ustr ''ABCDEFGHIJKLMNOPQRSTUVWXYZ'') (ustr ''abcdefghijklmnopqrstuvwxyz'')
     @ zip [192..<215] [224..<247] @ zip [216..<223] [248..<255]"

definition same_letter :: "nat \<Rightarrow> nat \<Rightarrow> bool" where
  "same_letter c d = (c = d \<or> (c, d) \<in> set case_pairs \<or> (d, c) \<in> set case_pairs)"

definition contains_ci16 :: "ustring \<Rightarrow> ustring \<Rightarrow> bool" where
  "contains_ci16 s k = (\<exists>w. sublist w s \<and> list_all2 same_letter w k)"

definition latin1 :: "ustring \<Rightarrow> bool" where
  "latin1 s = list_all (\<lambda>c. c < 256) s"

definition latin1_entry :: "LogEntry16 \<Rightarrow> bool" where
  "latin1_entry lg =
     (latin1 (source16 lg) \<and> latin1 (content16 lg)
      \<and> (case type16 lg of None \<Rightarrow> True | Some t \<Rightarrow> latin1 t))"

section \<open>Auxiliary notions\<close>

text \<open>The two filters of \<open>processedLogs\<close> as one predicate, for the proofs.\<close>

definition kept :: "string \<Rightarrow> string option \<Rightarrow> LogEntry \<Rightarrow> bool" where
  "kept filter_text selectedSeverity lg =
     ((filter_text = [] \<or> matches_filter filter_text lg)
      \<and> (case selectedSeverity of None \<Rightarrow> True
         | Some sel \<Rightarrow> sel = [] \<or> matches_severity sel lg))"

text \<open>The rank by which the severity comparator orders an entry.\<close>

definition sort_key :: "LogEntry \<Rightarrow> int" where
  "sort_key lg = or_num (severityOrder (severity lg)) 4"

text \<open>The same for the view on code units.\<close>

definition kept16 :: "(nat \<Rightarrow> nat list) \<Rightarrow> ustring \<Rightarrow> ustring option \<Rightarrow> LogEntry16 \<Rightarrow> bool" where
  "kept16 rest filter_text selectedSeverity lg =
     ((filter_text = [] \<or> matches_filter16 rest filter_text lg)
      \<and> (case selectedSeverity of None \<Rightarrow> True
         | Some sel \<Rightarrow> sel = [] \<or> matches_severity16 sel lg))"

text \<open>The capitals of ASCII and Latin-1, and the lowering of one code unit below 256.\<close>

definition capital :: "nat \<Rightarrow> bool" where
  "capital c = ((65 \<le> c \<and> c \<le> 90) \<or> (192 \<le> c \<and> c \<le> 214) \<or> (216 \<le> c \<and> c \<le> 222))"

definition lower_unit :: "nat \<Rightarrow> nat" where
  "lower_unit c =
     (if (65 \<le> c \<and> c \<le> 90) \<or> (192 \<le> c \<and> c \<le> 214) \<or> (216 \<le> c \<and> c \<le> 222)
      then c + 32 else c)"

section \<open>Properties of strings\<close>

lemma str_includes_iff_sublist: "str_includes s t \<longleftrightarrow> sublist t s"
  by (induction s) (simp_all add: sublist_Cons_right)

lemma includes_lower_iff_contains_ci:
  "str_includes (toLowerCase s) (toLowerCase k) \<longleftrightarrow> contains_ci s k"
proof
  assume "str_includes (toLowerCase s) (toLowerCase k)"
  then have "sublist (map toLowerCase_char k) (map toLowerCase_char s)"
    by (simp add: str_includes_iff_sublist toLowerCase_def)
  then obtain w where "sublist w s" "map toLowerCase_char k = map toLowerCase_char w"
    using sublist_map_rightE by blast
  then show "contains_ci s k"
    unfolding contains_ci_def toLowerCase_def by metis
next
  assume "contains_ci s k"
  then obtain w where w: "sublist w s" "toLowerCase w = toLowerCase k"
    unfolding contains_ci_def by blast
  from w(1) have "sublist (toLowerCase w) (toLowerCase s)"
    unfolding toLowerCase_def by (rule map_mono_sublist)
  with w(2) show "str_includes (toLowerCase s) (toLowerCase k)"
    by (simp add: str_includes_iff_sublist)
qed

lemma lower_keywords:
  "toLowerCase ''critical'' = ''critical''"
  "toLowerCase ''alert'' = ''alert''"
  "toLowerCase ''warning'' = ''warning''"
  "toLowerCase ''notice'' = ''notice''"
  by code_simp+

lemma includes_lower_keyword:
  "str_includes (toLowerCase s) ''critical'' \<longleftrightarrow> contains_ci s ''critical''"
  "str_includes (toLowerCase s) ''alert'' \<longleftrightarrow> contains_ci s ''alert''"
  "str_includes (toLowerCase s) ''warning'' \<longleftrightarrow> contains_ci s ''warning''"
  "str_includes (toLowerCase s) ''notice'' \<longleftrightarrow> contains_ci s ''notice''"
  using includes_lower_iff_contains_ci [of s "''critical''"]
    includes_lower_iff_contains_ci [of s "''alert''"]
    includes_lower_iff_contains_ci [of s "''warning''"]
    includes_lower_iff_contains_ci [of s "''notice''"]
  by (simp_all only: lower_keywords)

section \<open>The classifier\<close>

text \<open>
  C4. A log entry without a severity gets one from its content, by keywords matched
  without regard to case, the first match winning: \<open>critical\<close> gives critical; otherwise
  \<open>alert\<close> or \<open>warning\<close> gives high; otherwise \<open>notice\<close> gives medium; otherwise low.
\<close>

theorem enhance_log_severity_precedence:
  "severity lg = None \<Longrightarrow>
   severity (enhance_log lg) =
     Some (if contains_ci (content lg) ''critical'' then Critical
           else if contains_ci (content lg) ''alert'' \<or> contains_ci (content lg) ''warning''
             then High
           else if contains_ci (content lg) ''notice'' then Medium
           else Low)"
  by (simp add: enhance_log_def Let_def includes_lower_keyword)

theorem enhance_log_severity_precedence_witness:
  "severity \<lparr>timestamp = ''2024-01-01T10:00:00Z'', source = ''kernel'',
      content = ''WARNING: Critical temperature, notice sent'', severity = None,
      type = None\<rparr> = None
   \<and> severity (enhance_log \<lparr>timestamp = ''2024-01-01T10:00:00Z'', source = ''kernel'',
      content = ''WARNING: Critical temperature, notice sent'', severity = None,
      type = None\<rparr>) = Some Critical"
proof -
  have c: "contains_ci ''WARNING: Critical temperature, notice sent'' ''critical''"
    unfolding includes_lower_keyword [symmetric] by code_simp
  show ?thesis
    using enhance_log_severity_precedence [of "\<lparr>timestamp = ''2024-01-01T10:00:00Z'',
      source = ''kernel'', content = ''WARNING: Critical temperature, notice sent'',
      severity = None, type = None\<rparr>"] c
    by simp
qed

text \<open>
  C5. A log entry without a type gets one from its source, the first match winning: a
  source containing \<open>ids\<close> or \<open>snort\<close> gives intrusion; otherwise \<open>auth\<close> gives
  authentication; otherwise \<open>fw\<close> or \<open>firewall\<close> gives firewall; otherwise system.
\<close>

theorem enhance_log_type_precedence:
  "type lg = None \<Longrightarrow>
   type (enhance_log lg) =
     Some (if sublist ''ids'' (source lg) \<or> sublist ''snort'' (source lg) then ''intrusion''
           else if sublist ''auth'' (source lg) then ''authentication''
           else if sublist ''fw'' (source lg) \<or> sublist ''firewall'' (source lg)
             then ''firewall''
           else ''system'')"
  by (simp add: enhance_log_def Let_def truthy_str_def str_includes_iff_sublist)

theorem enhance_log_type_precedence_witness:
  "type \<lparr>timestamp = ''2024-01-01T10:00:00Z'', source = ''auth-fw-snort'',
      content = ''rule 7 hit'', severity = Some Low, type = None\<rparr> = None
   \<and> type (enhance_log \<lparr>timestamp = ''2024-01-01T10:00:00Z'', source = ''auth-fw-snort'',
      content = ''rule 7 hit'', severity = Some Low, type = None\<rparr>) = Some ''intrusion''"
proof -
  have c: "sublist ''snort'' ''auth-fw-snort''"
    by code_simp
  show ?thesis
    using enhance_log_type_precedence [of "\<lparr>timestamp = ''2024-01-01T10:00:00Z'',
      source = ''auth-fw-snort'', content = ''rule 7 hit'', severity = Some Low,
      type = None\<rparr>"] c
    by simp
qed

lemma enhance_log_severity_set: "severity (enhance_log lg) \<noteq> None"
  by (simp add: enhance_log_def Let_def)

lemma enhance_log_type_truthy: "truthy_str (type (enhance_log lg))"
  by (simp add: enhance_log_def Let_def truthy_str_def)

lemma enhance_log_noop:
  "severity lg \<noteq> None \<Longrightarrow> truthy_str (type lg) \<Longrightarrow> enhance_log lg = lg"
  by (simp add: enhance_log_def Let_def)

text \<open>
  C6, as stated: the classifier is idempotent, leaves a severity that is set alone, and
  likewise a type that is set. The last part fails: the test \<open>!log.type\<close> also holds
  for a type that is set to the empty string, and the classifier then replaces it.
\<close>

theorem enhance_log_empty_type_counterexample:
  "type \<lparr>timestamp = ''2024-01-01T10:00:00Z'', source = ''kernel'', content = ''boot'',
      severity = Some Low, type = Some []\<rparr> = Some []
   \<and> type (enhance_log \<lparr>timestamp = ''2024-01-01T10:00:00Z'', source = ''kernel'',
      content = ''boot'', severity = Some Low, type = Some []\<rparr>) = Some ''system''"
  by code_simp

text \<open>
  C6, amended: the classifier is idempotent; it leaves a severity that is set alone; it
  leaves a type that is set to a non-empty string alone; and an entry with both is
  returned as it is.
\<close>

theorem enhance_log_idempotent:
  "enhance_log (enhance_log lg) = enhance_log lg
   \<and> (severity lg \<noteq> None \<longrightarrow> severity (enhance_log lg) = severity lg)
   \<and> (\<forall>t. type lg = Some t \<and> t \<noteq> [] \<longrightarrow> type (enhance_log lg) = type lg)
   \<and> (\<forall>t. severity lg \<noteq> None \<and> type lg = Some t \<and> t \<noteq> [] \<longrightarrow> enhance_log lg = lg)"
proof (intro conjI allI impI)
  show "enhance_log (enhance_log lg) = enhance_log lg"
    by (rule enhance_log_noop [OF enhance_log_severity_set enhance_log_type_truthy])
next
  assume "severity lg \<noteq> None"
  then show "severity (enhance_log lg) = severity lg"
    by (simp add: enhance_log_def Let_def)
next
  fix t assume "type lg = Some t \<and> t \<noteq> []"
  then show "type (enhance_log lg) = type lg"
    by (simp add: enhance_log_def Let_def truthy_str_def)
next
  fix t assume "severity lg \<noteq> None \<and> type lg = Some t \<and> t \<noteq> []"
  then show "enhance_log lg = lg"
    by (simp add: enhance_log_noop truthy_str_def)
qed

theorem enhance_log_idempotent_witness:
  "severity \<lparr>timestamp = ''2024-01-01T10:00:00Z'', source = ''snort'',
      content = ''critical'', severity = Some Low, type = Some ''process''\<rparr> \<noteq> None
   \<and> type \<lparr>timestamp = ''2024-01-01T10:00:00Z'', source = ''snort'',
      content = ''critical'', severity = Some Low, type = Some ''process''\<rparr> = Some ''process''
   \<and> ''process'' \<noteq> []
   \<and> enhance_log \<lparr>timestamp = ''2024-01-01T10:00:00Z'', source = ''snort'',
      content = ''critical'', severity = Some Low, type = Some ''process''\<rparr>
     = \<lparr>timestamp = ''2024-01-01T10:00:00Z'', source = ''snort'',
      content = ''critical'', severity = Some Low, type = Some ''process''\<rparr>"
  using enhance_log_idempotent [of "\<lparr>timestamp = ''2024-01-01T10:00:00Z'',
      source = ''snort'', content = ''critical'', severity = Some Low,
      type = Some ''process''\<rparr>"]
  by simp

section \<open>The log view\<close>

lemma mset_sort_insert: "mset (sort_insert cmp x xs) = add_mset x (mset xs)"
  by (induction xs) simp_all

lemma mset_array_sort: "mset (array_sort cmp xs) = mset xs"
  unfolding array_sort_def by (induction xs) (simp_all add: mset_sort_insert)

lemma set_array_sort: "set (array_sort cmp xs) = set xs"
  using mset_array_sort [of cmp xs] by (metis set_mset_mset)

lemma sorted_sort_insert:
  fixes k :: "'a \<Rightarrow> int"
  assumes key: "\<And>x y. (SortCompare cmp x y \<le> 0) = (k x \<le> k y)"
    and srt: "sorted (map k xs)"
  shows "sorted (map k (sort_insert cmp a xs))"
  using srt
proof (induction xs)
  case Nil
  then show ?case by simp
next
  case (Cons y ys)
  show ?case
  proof (cases "k a \<le> k y")
    case True
    with Cons.prems show ?thesis by (auto simp: key)
  next
    case False
    have "set (sort_insert cmp a ys) = insert a (set ys)"
      using mset_sort_insert [of cmp a ys] by (metis set_mset_mset set_mset_add_mset_insert)
    with False Cons show ?thesis by (auto simp: key)
  qed
qed

lemma sorted_array_sort:
  fixes k :: "'a \<Rightarrow> int"
  assumes key: "\<And>x y. (SortCompare cmp x y \<le> 0) = (k x \<le> k y)"
  shows "sorted (map k (array_sort cmp xs))"
  unfolding array_sort_def
proof (induction xs)
  case Nil
  show ?case by simp
next
  case (Cons a xs)
  then show ?case by (simp add: sorted_sort_insert [where k = k, OF key])
qed

lemma processedLogs_as_sort:
  "processedLogs getTime localeCompare entries filter_text sortField sortDirection
     selectedSeverity =
   array_sort (comparefn getTime localeCompare sortField sortDirection)
     (filter (kept filter_text selectedSeverity) entries)"
  by (cases selectedSeverity) (simp_all add: processedLogs_def kept_def [abs_def] Let_def)

text \<open>
  C10. Whatever the text filter, the severity selector, the sort field and the
  direction, the view is a rearrangement of part of the input: as multisets the view
  is contained in the input (so no entry is invented or duplicated), every entry of the
  view is an entry of the input, and the view is not longer than the input.
\<close>

theorem processedLogs_sub_permutation:
  "mset (processedLogs getTime localeCompare entries filter_text sortField sortDirection
           selectedSeverity) \<subseteq># mset entries
   \<and> set (processedLogs getTime localeCompare entries filter_text sortField sortDirection
           selectedSeverity) \<subseteq> set entries
   \<and> length (processedLogs getTime localeCompare entries filter_text sortField sortDirection
           selectedSeverity) \<le> length entries"
proof -
  let ?r = "processedLogs getTime localeCompare entries filter_text sortField sortDirection
           selectedSeverity"
  have m: "mset ?r = filter_mset (kept filter_text selectedSeverity) (mset entries)"
    by (simp add: processedLogs_as_sort mset_array_sort)
  then have sub: "mset ?r \<subseteq># mset entries" by simp
  have "set ?r \<subseteq> set entries"
    using set_mset_mono [OF sub] by simp
  moreover have "length ?r \<le> length entries"
    using size_mset_mono [OF sub] by simp
  ultimately show ?thesis using sub by simp
qed

lemma array_sort_single: "array_sort cmp [x] = [x]"
  by (simp add: array_sort_def)

lemma lower_examples:
  "toLowerCase ''idsA'' = ''idsa''"
  "toLowerCase ''auth1'' = ''auth1''"
  "toLowerCase ''ids'' = ''ids''"
  "toLowerCase ''intrusion'' = ''intrusion''"
  "toLowerCase ''authentication'' = ''authentication''"
  by code_simp+

lemma includes_examples:
  "str_includes ''idsa'' ''ids''"
  "\<not> str_includes ''auth1'' ''ids''"
  "\<not> str_includes ''authentication'' ''ids''"
  by code_simp+

lemma example_text:
  "processedLogs getTime localeCompare
     [\<lparr>timestamp = t1, source = ''idsA'', content = [], severity = Some Critical,
        type = None\<rparr>,
      \<lparr>timestamp = t2, source = ''auth1'', content = [], severity = Some Low,
        type = None\<rparr>]
     ''ids'' sortField sortDirection None =
   [\<lparr>timestamp = t1, source = ''idsA'', content = [], severity = Some Critical,
      type = None\<rparr>]"
  unfolding processedLogs_as_sort
  by (simp add: kept_def matches_filter_def lower_examples includes_examples
      array_sort_single toLowerCase_def [of "[]"])

lemma example_severity:
  "processedLogs getTime localeCompare
     [\<lparr>timestamp = t1, source = ''idsA'', content = [], severity = Some Critical,
        type = None\<rparr>,
      \<lparr>timestamp = t2, source = ''auth1'', content = [], severity = Some Low,
        type = None\<rparr>]
     [] sortField sortDirection (Some ''low'') =
   [\<lparr>timestamp = t2, source = ''auth1'', content = [], severity = Some Low,
      type = None\<rparr>]"
  unfolding processedLogs_as_sort
  by (simp add: kept_def matches_severity_def severity_name_def array_sort_single)

lemma enhance_examples:
  "enhance_log \<lparr>timestamp = t1, source = ''idsA'', content = [], severity = Some Critical,
      type = None\<rparr> =
   \<lparr>timestamp = t1, source = ''idsA'', content = [], severity = Some Critical,
      type = Some ''intrusion''\<rparr>"
  "enhance_log \<lparr>timestamp = t2, source = ''auth1'', content = [], severity = Some Low,
      type = None\<rparr> =
   \<lparr>timestamp = t2, source = ''auth1'', content = [], severity = Some Low,
      type = Some ''authentication''\<rparr>"
  by (simp_all add: enhance_log_def truthy_str_def)

lemma example_text_classified:
  "processedLogs getTime localeCompare
     (enhancedLogs
       [\<lparr>timestamp = t1, source = ''idsA'', content = [], severity = Some Critical,
          type = None\<rparr>,
        \<lparr>timestamp = t2, source = ''auth1'', content = [], severity = Some Low,
          type = None\<rparr>])
     ''ids'' sortField sortDirection None =
   [\<lparr>timestamp = t1, source = ''idsA'', content = [], severity = Some Critical,
      type = Some ''intrusion''\<rparr>]"
  unfolding processedLogs_as_sort enhancedLogs_def
  by (simp add: enhance_examples kept_def matches_filter_def lower_examples includes_examples
      array_sort_single toLowerCase_def [of "[]"])

lemma example_severity_classified:
  "processedLogs getTime localeCompare
     (enhancedLogs
       [\<lparr>timestamp = t1, source = ''idsA'', content = [], severity = Some Critical,
          type = None\<rparr>,
        \<lparr>timestamp = t2, source = ''auth1'', content = [], severity = Some Low,
          type = None\<rparr>])
     [] sortField sortDirection (Some ''low'') =
   [\<lparr>timestamp = t2, source = ''auth1'', content = [], severity = Some Low,
      type = Some ''authentication''\<rparr>]"
  unfolding processedLogs_as_sort enhancedLogs_def
  by (simp add: enhance_examples kept_def matches_severity_def severity_name_def
      array_sort_single)

subsection \<open>The text filter on code units\<close>

lemma includes16_iff_sublist: "includes16 s t \<longleftrightarrow> sublist t s"
  by (induction s) (simp_all add: sublist_Cons_right)

lemma toLowerCase16_latin1: "latin1 s \<Longrightarrow> toLowerCase16 rest s = map lower_unit s"
  by (induction s)
     (simp_all add: toLowerCase16_def toLowerCase16_unit_def lower_unit_def latin1_def)

lemma zip_upt_shift: "zip [a..<b] [a + k..<b + k] = map (\<lambda>u. (u, u + k)) [a..<b]"
  by (simp add: list_eq_iff_nth_eq)

lemma alphabets:
  "ustr ''ABCDEFGHIJKLMNOPQRSTUVWXYZ'' = [65..<91]"
  "ustr ''abcdefghijklmnopqrstuvwxyz'' = [97..<123]"
  by code_simp+

lemma case_pairs_eq:
  "case_pairs = map (\<lambda>u. (u, u + 32)) ([65..<91] @ [192..<215] @ [216..<223])"
  unfolding case_pairs_def alphabets
  using zip_upt_shift [of 65 91 32] zip_upt_shift [of 192 215 32] zip_upt_shift [of 216 223 32]
  by simp

lemma in_shift_range:
  "(c, d) \<in> set (map (\<lambda>u. (u, u + k)) [a..<b]) \<longleftrightarrow> a \<le> c \<and> c < b \<and> d = c + k"
  by auto

lemma capital_less:
  "capital c \<longleftrightarrow> (65 \<le> c \<and> c < 91) \<or> (192 \<le> c \<and> c < 215) \<or> (216 \<le> c \<and> c < 223)"
  unfolding capital_def by linarith

lemma capital_shift: "capital c \<Longrightarrow> \<not> capital (c + 32)"
  unfolding capital_def by linarith

lemma in_case_pairs: "(c, d) \<in> set case_pairs \<longleftrightarrow> capital c \<and> d = c + 32"
  unfolding case_pairs_eq map_append set_append Un_iff in_shift_range capital_less by blast

lemma lower_unit_capital: "lower_unit c = (if capital c then c + 32 else c)"
  by (simp add: lower_unit_def capital_def)

text \<open>
  The lowering of the code and the table of the specification agree: two code units
  lower to the same code unit if and only if they are the same letter.
\<close>

lemma lower_unit_eq_iff: "lower_unit c = lower_unit d \<longleftrightarrow> same_letter c d"
proof (cases "capital c"; cases "capital d")
  assume "capital c" "capital d"
  then show ?thesis
    using capital_shift [of c] capital_shift [of d]
    by (auto simp: same_letter_def in_case_pairs lower_unit_capital)
next
  assume "capital c" "\<not> capital d"
  then show ?thesis
    by (auto simp: same_letter_def in_case_pairs lower_unit_capital)
next
  assume "\<not> capital c" "capital d"
  then show ?thesis
    by (auto simp: same_letter_def in_case_pairs lower_unit_capital)
next
  assume "\<not> capital c" "\<not> capital d"
  then show ?thesis
    by (auto simp: same_letter_def in_case_pairs lower_unit_capital)
qed

lemma map_lower_eq_iff: "map lower_unit w = map lower_unit k \<longleftrightarrow> list_all2 same_letter w k"
proof -
  have "map lower_unit w = map lower_unit k
      \<longleftrightarrow> list_all2 (\<lambda>c d. lower_unit c = lower_unit d) w k"
    by (simp add: list.rel_map flip: list.rel_eq)
  then show ?thesis
    by (simp add: lower_unit_eq_iff)
qed

lemma contains_ci16_code:
  "contains_ci16 s k \<longleftrightarrow> includes16 (map lower_unit s) (map lower_unit k)"
proof
  assume "contains_ci16 s k"
  then obtain w where w: "sublist w s" "map lower_unit w = map lower_unit k"
    unfolding contains_ci16_def map_lower_eq_iff by blast
  from w(1) have "sublist (map lower_unit w) (map lower_unit s)"
    by (rule map_mono_sublist)
  with w(2) show "includes16 (map lower_unit s) (map lower_unit k)"
    by (simp add: includes16_iff_sublist)
next
  assume "includes16 (map lower_unit s) (map lower_unit k)"
  then have "sublist (map lower_unit k) (map lower_unit s)"
    by (simp add: includes16_iff_sublist)
  then obtain w where "sublist w s" "map lower_unit k = map lower_unit w"
    using sublist_map_rightE by blast
  then show "contains_ci16 s k"
    unfolding contains_ci16_def using map_lower_eq_iff by metis
qed

lemma includes16_lower_iff:
  "latin1 s \<Longrightarrow> latin1 k \<Longrightarrow>
   includes16 (toLowerCase16 rest s) (toLowerCase16 rest k) \<longleftrightarrow> contains_ci16 s k"
  by (simp add: toLowerCase16_latin1 contains_ci16_code)

lemma contains_ci16_Nil: "contains_ci16 [] k \<longleftrightarrow> k = []"
  by (auto simp: contains_ci16_def)

lemma kept16_iff:
  assumes "latin1 filter_text" "latin1_entry lg"
  shows "kept16 rest filter_text selectedSeverity lg \<longleftrightarrow>
     (filter_text = [] \<or> contains_ci16 (source16 lg) filter_text
        \<or> contains_ci16 (content16 lg) filter_text
        \<or> (\<exists>t. type16 lg = Some t \<and> contains_ci16 t filter_text))
     \<and> (selectedSeverity = None \<or> selectedSeverity = Some []
        \<or> map_option (\<lambda>s. ustr (severity_name s)) (severity16 lg) = selectedSeverity)"
proof -
  have m: "matches_filter16 rest filter_text lg \<longleftrightarrow>
       contains_ci16 (source16 lg) filter_text \<or> contains_ci16 (content16 lg) filter_text
       \<or> (\<exists>t. type16 lg = Some t \<and> contains_ci16 t filter_text)"
    if "filter_text \<noteq> []"
  proof (cases "type16 lg")
    case None
    with assms show ?thesis
      by (simp add: matches_filter16_def latin1_entry_def includes16_lower_iff)
  next
    case (Some t)
    with that have "contains_ci16 t filter_text \<Longrightarrow> t \<noteq> []"
      using contains_ci16_Nil by blast
    with Some assms show ?thesis
      by (auto simp: matches_filter16_def latin1_entry_def includes16_lower_iff)
  qed
  show ?thesis
  proof (cases "filter_text = []")
    case True
    then show ?thesis
      by (cases selectedSeverity) (auto simp: kept16_def matches_severity16_def)
  next
    case False
    with m show ?thesis
      by (cases selectedSeverity) (auto simp: kept16_def matches_severity16_def)
  qed
qed

lemma processedLogs16_as_sort:
  "processedLogs16 rest getTime localeCompare entries filter_text sortField sortDirection
     selectedSeverity =
   array_sort (comparefn16 getTime localeCompare sortField sortDirection)
     (filter (kept16 rest filter_text selectedSeverity) entries)"
  by (cases selectedSeverity) (simp_all add: processedLogs16_def kept16_def [abs_def] Let_def)

lemma set_processedLogs16:
  assumes "latin1 filter_text" "list_all latin1_entry entries"
  shows "set (processedLogs16 rest getTime localeCompare entries filter_text sortField
          sortDirection selectedSeverity) =
     {lg \<in> set entries.
        (filter_text = [] \<or> contains_ci16 (source16 lg) filter_text
           \<or> contains_ci16 (content16 lg) filter_text
           \<or> (\<exists>t. type16 lg = Some t \<and> contains_ci16 t filter_text))
        \<and> (selectedSeverity = None \<or> selectedSeverity = Some []
           \<or> map_option (\<lambda>s. ustr (severity_name s)) (severity16 lg) = selectedSeverity)}"
proof -
  have "lg \<in> set entries \<Longrightarrow> latin1_entry lg" for lg
    using assms(2) by (simp add: list_all_iff)
  then show ?thesis
    unfolding processedLogs16_as_sort set_array_sort set_filter
    using kept16_iff [OF assms(1)] by blast
qed

subsection \<open>The view on 8-bit strings is the view on code units\<close>

lemma ustr_inj: "ustr a = ustr b \<longleftrightarrow> a = b"
  by (simp add: ustr_def inj_map_eq_map [OF inj_of_char])

lemma ustr_Nil: "ustr a = [] \<longleftrightarrow> a = []"
  by (simp add: ustr_def)

lemma of_char_less: "(of_char c :: nat) < 256"
  by (cases c) simp

lemma latin1_ustr: "latin1 (ustr s)"
  by (simp add: latin1_def ustr_def list_all_iff of_char_less)

lemma latin1_entry_widen: "latin1_entry (widen lg)"
  by (cases "type lg") (simp_all add: latin1_entry_def widen_def latin1_ustr)

lemma toLowerCase16_unit_char:
  "toLowerCase16_unit rest (of_char c) = [of_char (toLowerCase_char c)]"
proof -
  have "(of_char (char_of (of_char c + 32 :: nat)) :: nat) = of_char c + 32"
    if "(of_char c :: nat) \<le> 222"
    using that by simp
  then show ?thesis
    by (auto simp: toLowerCase16_unit_def toLowerCase_char_def Let_def)
qed

lemma toLowerCase16_ustr: "toLowerCase16 rest (ustr s) = ustr (toLowerCase s)"
  by (induction s)
     (simp_all add: toLowerCase16_def ustr_def toLowerCase_def toLowerCase16_unit_char)

lemma includes16_ustr: "includes16 (ustr a) (ustr b) \<longleftrightarrow> str_includes a b"
proof -
  have "sublist (ustr b) (ustr a) \<longleftrightarrow> sublist b a"
  proof
    assume "sublist (ustr b) (ustr a)"
    then obtain w where "sublist w a" "ustr b = ustr w"
      unfolding ustr_def using sublist_map_rightE by blast
    then show "sublist b a"
      by (simp add: ustr_inj)
  next
    assume "sublist b a"
    then show "sublist (ustr b) (ustr a)"
      unfolding ustr_def by (rule map_mono_sublist)
  qed
  then show ?thesis
    by (simp add: includes16_iff_sublist str_includes_iff_sublist)
qed

lemma matches_filter16_widen:
  "matches_filter16 rest (ustr filter_text) (widen lg) \<longleftrightarrow> matches_filter filter_text lg"
  by (cases "type lg")
     (simp_all add: matches_filter16_def matches_filter_def widen_def toLowerCase16_ustr
        includes16_ustr ustr_Nil)

lemma matches_severity16_widen:
  "matches_severity16 (ustr sel) (widen lg) \<longleftrightarrow> matches_severity sel lg"
  by (cases "severity lg")
     (simp_all add: matches_severity16_def matches_severity_def widen_def ustr_inj)

lemma kept16_widen:
  "kept16 rest (ustr filter_text) (map_option ustr selectedSeverity) (widen lg)
     \<longleftrightarrow> kept filter_text selectedSeverity lg"
  by (cases selectedSeverity)
     (simp_all add: kept16_def kept_def matches_filter16_widen matches_severity16_widen
        ustr_Nil)

lemma comparefn16_widen:
  "comparefn16 getTime localeCompare sortField sortDirection (widen a) (widen b) =
     comparefn (\<lambda>s. getTime (ustr s)) (\<lambda>x y. localeCompare (ustr x) (ustr y)) sortField
       sortDirection a b"
  by (cases sortDirection; cases sortField)
     (simp_all add: comparefn16_def comparefn_def comparison16_def comparison_def widen_def)

lemma sort_insert_map:
  assumes "\<And>x y. cmp' (f x) (f y) = cmp x y"
  shows "sort_insert cmp' (f a) (map f xs) = map f (sort_insert cmp a xs)"
  by (induction xs) (simp_all add: SortCompare_def assms)

lemma array_sort_map:
  assumes "\<And>x y. cmp' (f x) (f y) = cmp x y"
  shows "array_sort cmp' (map f xs) = map f (array_sort cmp xs)"
  unfolding array_sort_def
  by (induction xs) (simp_all add: sort_insert_map [of cmp' f cmp, OF assms])

text \<open>
  On entries of 8-bit strings the two views agree, whatever the parameter \<open>rest\<close>: the
  view on code units of the widened entries is the widened view.
\<close>

lemma processedLogs16_widen:
  "processedLogs16 rest getTime localeCompare (map widen entries) (ustr filter_text) sortField
     sortDirection (map_option ustr selectedSeverity) =
   map widen
     (processedLogs (\<lambda>s. getTime (ustr s)) (\<lambda>x y. localeCompare (ustr x) (ustr y)) entries
        filter_text sortField sortDirection selectedSeverity)"
proof -
  have "array_sort (comparefn16 getTime localeCompare sortField sortDirection) (map widen xs) =
      map widen
        (array_sort
          (comparefn (\<lambda>s. getTime (ustr s)) (\<lambda>x y. localeCompare (ustr x) (ustr y)) sortField
            sortDirection) xs)" for xs
    by (rule array_sort_map) (rule comparefn16_widen)
  then show ?thesis
    unfolding processedLogs16_as_sort processedLogs_as_sort
    by (simp add: filter_map comp_def kept16_widen)
qed

lemma ustr_empty: "ustr [] = []"
  by (simp add: ustr_def)

lemma processedLogs16_widen_None:
  "processedLogs16 rest getTime localeCompare (map widen entries) (ustr filter_text) sortField
     sortDirection None =
   map widen
     (processedLogs (\<lambda>s. getTime (ustr s)) (\<lambda>x y. localeCompare (ustr x) (ustr y)) entries
        filter_text sortField sortDirection None)"
  using processedLogs16_widen [of rest getTime localeCompare entries filter_text sortField
      sortDirection None]
  by simp

lemma processedLogs16_widen_Some:
  "processedLogs16 rest getTime localeCompare (map widen entries) [] sortField
     sortDirection (Some (ustr sel)) =
   map widen
     (processedLogs (\<lambda>s. getTime (ustr s)) (\<lambda>x y. localeCompare (ustr x) (ustr y)) entries
        [] sortField sortDirection (Some sel))"
  using processedLogs16_widen [of rest getTime localeCompare entries "[]" sortField
      sortDirection "Some sel"]
  by (simp add: ustr_empty)

lemma example16_text:
  "processedLogs16 rest getTime localeCompare
     (map widen
       [\<lparr>timestamp = t1, source = ''idsA'', content = [], severity = Some Critical,
          type = None\<rparr>,
        \<lparr>timestamp = t2, source = ''auth1'', content = [], severity = Some Low,
          type = None\<rparr>])
     (ustr ''ids'') sortField sortDirection None =
   [widen \<lparr>timestamp = t1, source = ''idsA'', content = [], severity = Some Critical,
      type = None\<rparr>]"
  unfolding processedLogs16_widen_None example_text by simp

lemma example16_severity:
  "processedLogs16 rest getTime localeCompare
     (map widen
       [\<lparr>timestamp = t1, source = ''idsA'', content = [], severity = Some Critical,
          type = None\<rparr>,
        \<lparr>timestamp = t2, source = ''auth1'', content = [], severity = Some Low,
          type = None\<rparr>])
     [] sortField sortDirection (Some (ustr ''low'')) =
   [widen \<lparr>timestamp = t2, source = ''auth1'', content = [], severity = Some Low,
      type = None\<rparr>]"
  unfolding processedLogs16_widen_Some example_severity by simp

lemma example16_text_classified:
  "processedLogs16 rest getTime localeCompare
     (map widen
       (enhancedLogs
         [\<lparr>timestamp = t1, source = ''idsA'', content = [], severity = Some Critical,
            type = None\<rparr>,
          \<lparr>timestamp = t2, source = ''auth1'', content = [], severity = Some Low,
            type = None\<rparr>]))
     (ustr ''ids'') sortField sortDirection None =
   [widen \<lparr>timestamp = t1, source = ''idsA'', content = [], severity = Some Critical,
      type = Some ''intrusion''\<rparr>]"
  unfolding processedLogs16_widen_None example_text_classified by simp

lemma example16_severity_classified:
  "processedLogs16 rest getTime localeCompare
     (map widen
       (enhancedLogs
         [\<lparr>timestamp = t1, source = ''idsA'', content = [], severity = Some Critical,
            type = None\<rparr>,
          \<lparr>timestamp = t2, source = ''auth1'', content = [], severity = Some Low,
            type = None\<rparr>]))
     [] sortField sortDirection (Some (ustr ''low'')) =
   [widen \<lparr>timestamp = t2, source = ''auth1'', content = [], severity = Some Low,
      type = Some ''authentication''\<rparr>]"
  unfolding processedLogs16_widen_Some example_severity_classified by simp

lemma contains_ci16_examples:
  "contains_ci16 (ustr ''idsA'') (ustr ''IDS'')"
  "\<not> contains_ci16 (ustr ''auth1'') (ustr ''IDS'')"
  "\<not> contains_ci16 [] (ustr ''IDS'')"
  "\<not> contains_ci16 (ustr ''intrusion'') (ustr ''IDS'')"
  "\<not> contains_ci16 (ustr ''authentication'') (ustr ''IDS'')"
  unfolding contains_ci16_code by code_simp+

lemma Collect_pair:
  "{x \<in> set [a, b]. P x} = (if P a then {a} else {}) \<union> (if P b then {b} else {})"
  by auto

text \<open>
  C7, as stated: for every list of entries and every text, an entry is in the view if
  and only if the text occurs in its source, content or type without regard to case
  (and the severity selector agrees). The filter compares \<open>toLowerCase\<close> of both sides,
  and beyond Latin-1 that is another relation. The entry below has the source U+0130
  (a capital I with a dot above), the content \<open>link up\<close>, and the severity and type that
  the classifier gives it; the text is the single code unit U+0307 (a combining dot
  above). The source lowers to U+0069 U+0307, which holds the text, so the entry is in
  the view, and the text occurs in none of its three fields in any case.
\<close>

theorem text_filter_dotted_I_counterexample:
  "processedLogs16 (\<lambda>c. [c]) (\<lambda>s. None) (\<lambda>a b. 0)
     [\<lparr>timestamp16 = ustr ''2024-01-01T10:00:00Z'', source16 = [304],
        content16 = ustr ''link up'', severity16 = Some Low,
        type16 = Some (ustr ''system'')\<rparr>]
     [775] ByTimestamp Desc None =
     [\<lparr>timestamp16 = ustr ''2024-01-01T10:00:00Z'', source16 = [304],
        content16 = ustr ''link up'', severity16 = Some Low,
        type16 = Some (ustr ''system'')\<rparr>]
   \<and> \<not> contains_ci16 [304] [775]
   \<and> \<not> contains_ci16 (ustr ''link up'') [775]
   \<and> \<not> contains_ci16 (ustr ''system'') [775]"
proof -
  have "\<not> contains_ci16 [304] [775]" "\<not> contains_ci16 (ustr ''link up'') [775]"
    "\<not> contains_ci16 (ustr ''system'') [775]"
    unfolding contains_ci16_code by code_simp+
  moreover have "includes16 (toLowerCase16 (\<lambda>c. [c]) [304]) (toLowerCase16 (\<lambda>c. [c]) [775])"
    by code_simp
  ultimately show ?thesis
    by (simp add: processedLogs16_def matches_filter16_def array_sort_single)
qed

text \<open>
  C7, amended: for every list of entries whose source, content and type hold only
  ASCII and Latin-1 characters, and every text of such characters, the view keeps
  exactly the entries that pass both filters that are active: the text filter (when the
  text is not empty) asks for an occurrence of the text in the source, the content or
  the type without regard to case; the severity selector (when one is chosen) asks for
  that very severity. On the two entries of the specification's example, one critical
  from \<open>idsA\<close> and one low from \<open>auth1\<close> (the content empty and the type absent, as the
  example leaves them), the text \<open>ids\<close> keeps the first alone and the selector \<open>low\<close>
  the second alone, whatever the sort; and so it is when the two entries have passed
  through the classifier first, as they do in \<open>loadData\<close>.
\<close>

theorem processedLogs16_filters:
  assumes "latin1 filter_text" and "list_all latin1_entry entries"
  shows "set (processedLogs16 rest getTime localeCompare entries filter_text sortField
          sortDirection selectedSeverity) =
     {lg \<in> set entries.
        (filter_text = [] \<or> contains_ci16 (source16 lg) filter_text
           \<or> contains_ci16 (content16 lg) filter_text
           \<or> (\<exists>t. type16 lg = Some t \<and> contains_ci16 t filter_text))
        \<and> (selectedSeverity = None \<or> selectedSeverity = Some []
           \<or> map_option (\<lambda>s. ustr (severity_name s)) (severity16 lg) = selectedSeverity)}
   \<and> processedLogs16 rest getTime localeCompare
       (map widen
         [\<lparr>timestamp = t1, source = ''idsA'', content = [], severity = Some Critical,
            type = None\<rparr>,
          \<lparr>timestamp = t2, source = ''auth1'', content = [], severity = Some Low,
            type = None\<rparr>])
       (ustr ''ids'') sortField sortDirection None =
     [widen \<lparr>timestamp = t1, source = ''idsA'', content = [], severity = Some Critical,
        type = None\<rparr>]
   \<and> processedLogs16 rest getTime localeCompare
       (map widen
         [\<lparr>timestamp = t1, source = ''idsA'', content = [], severity = Some Critical,
            type = None\<rparr>,
          \<lparr>timestamp = t2, source = ''auth1'', content = [], severity = Some Low,
            type = None\<rparr>])
       [] sortField sortDirection (Some (ustr ''low'')) =
     [widen \<lparr>timestamp = t2, source = ''auth1'', content = [], severity = Some Low,
        type = None\<rparr>]
   \<and> processedLogs16 rest getTime localeCompare
       (map widen
         (enhancedLogs
           [\<lparr>timestamp = t1, source = ''idsA'', content = [], severity = Some Critical,
              type = None\<rparr>,
            \<lparr>timestamp = t2, source = ''auth1'', content = [], severity = Some Low,
              type = None\<rparr>]))
       (ustr ''ids'') sortField sortDirection None =
     [widen \<lparr>timestamp = t1, source = ''idsA'', content = [], severity = Some Critical,
        type = Some ''intrusion''\<rparr>]
   \<and> processedLogs16 rest getTime localeCompare
       (map widen
         (enhancedLogs
           [\<lparr>timestamp = t1, source = ''idsA'', content = [], severity = Some Critical,
              type = None\<rparr>,
            \<lparr>timestamp = t2, source = ''auth1'', content = [], severity = Some Low,
              type = None\<rparr>]))
       [] sortField sortDirection (Some (ustr ''low'')) =
     [widen \<lparr>timestamp = t2, source = ''auth1'', content = [], severity = Some Low,
        type = Some ''authentication''\<rparr>]"
  by (intro conjI set_processedLogs16 [OF assms] example16_text example16_severity
      example16_text_classified example16_severity_classified)

theorem processedLogs16_filters_witness:
  "latin1 (ustr ''IDS'')
   \<and> list_all latin1_entry
     [widen \<lparr>timestamp = ''2024-01-01T10:00:00Z'', source = ''idsA'', content = [],
        severity = Some Critical, type = Some ''intrusion''\<rparr>,
      widen \<lparr>timestamp = ''2024-01-01T10:00:05Z'', source = ''auth1'', content = [],
        severity = Some Low, type = Some ''authentication''\<rparr>]
   \<and> set (processedLogs16 (\<lambda>c. [c]) (\<lambda>s. None) (\<lambda>a b. 0)
     [widen \<lparr>timestamp = ''2024-01-01T10:00:00Z'', source = ''idsA'', content = [],
        severity = Some Critical, type = Some ''intrusion''\<rparr>,
      widen \<lparr>timestamp = ''2024-01-01T10:00:05Z'', source = ''auth1'', content = [],
        severity = Some Low, type = Some ''authentication''\<rparr>]
     (ustr ''IDS'') BySource Asc None) =
     {widen \<lparr>timestamp = ''2024-01-01T10:00:00Z'', source = ''idsA'', content = [],
        severity = Some Critical, type = Some ''intrusion''\<rparr>}"
proof -
  have h1: "latin1 (ustr ''IDS'')"
    by (rule latin1_ustr)
  have h2: "list_all latin1_entry
     [widen \<lparr>timestamp = ''2024-01-01T10:00:00Z'', source = ''idsA'', content = [],
        severity = Some Critical, type = Some ''intrusion''\<rparr>,
      widen \<lparr>timestamp = ''2024-01-01T10:00:05Z'', source = ''auth1'', content = [],
        severity = Some Low, type = Some ''authentication''\<rparr>]"
    by (simp add: latin1_entry_widen)
  show ?thesis
    using h1 h2
      processedLogs16_filters [OF h1 h2, THEN conjunct1, of "\<lambda>c. [c]" "\<lambda>s. None" "\<lambda>a b. 0"
        BySource Asc None]
    unfolding Collect_pair
    by (simp add: widen_def contains_ci16_examples ustr_Nil ustr_empty)
qed

subsection \<open>Sorting by severity\<close>

text \<open>The severity sort orders the view by rank, upwards or downwards.\<close>

lemma sort_key_values:
  "severity lg = None \<Longrightarrow> sort_key lg = 4"
  "severity lg = Some Critical \<Longrightarrow> sort_key lg = 4"
  "severity lg = Some High \<Longrightarrow> sort_key lg = 1"
  "severity lg = Some Medium \<Longrightarrow> sort_key lg = 2"
  "severity lg = Some Low \<Longrightarrow> sort_key lg = 3"
  by (simp_all add: sort_key_def severityOrder_def or_num_def)

lemma SortCompare_severity_asc:
  "(SortCompare (comparefn getTime localeCompare BySeverity Asc) x y \<le> 0)
     = (sort_key x \<le> sort_key y)"
  by (simp add: SortCompare_def comparefn_def comparison_def sort_key_def)

lemma SortCompare_severity_desc:
  "(SortCompare (comparefn getTime localeCompare BySeverity Desc) x y \<le> 0)
     = (- sort_key x \<le> - sort_key y)"
  by (simp add: SortCompare_def comparefn_def comparison_def sort_key_def)

lemma sorted_key_asc:
  "sorted_wrt (\<lambda>a b. sort_key a \<le> sort_key b)
     (processedLogs getTime localeCompare entries filter_text BySeverity Asc selectedSeverity)"
  unfolding processedLogs_as_sort
  using sorted_array_sort [where k = sort_key, OF SortCompare_severity_asc]
  by (simp add: sorted_map)

lemma sorted_key_desc:
  "sorted_wrt (\<lambda>a b. sort_key b \<le> sort_key a)
     (processedLogs getTime localeCompare entries filter_text BySeverity Desc selectedSeverity)"
  unfolding processedLogs_as_sort
  using sorted_array_sort [where k = "\<lambda>lg. - sort_key lg", OF SortCompare_severity_desc]
  by (simp add: sorted_map)

text \<open>
  C2. The claim: under the ascending severity sort a critical entry comes before a
  high one, and under the descending sort after it. The code does the opposite in both
  directions: \<open>severityOrder\<close> gives critical the rank 0, and \<open>0 || 4\<close> is 4, the rank
  of an entry without severity.
\<close>

theorem severity_sort_critical_misplaced:
  "processedLogs getTime localeCompare
     [\<lparr>timestamp = t1, source = ''a'', content = ''x'', severity = Some Critical,
        type = Some ''system''\<rparr>,
      \<lparr>timestamp = t2, source = ''b'', content = ''y'', severity = Some High,
        type = Some ''system''\<rparr>]
     [] BySeverity Asc None =
     [\<lparr>timestamp = t2, source = ''b'', content = ''y'', severity = Some High,
        type = Some ''system''\<rparr>,
      \<lparr>timestamp = t1, source = ''a'', content = ''x'', severity = Some Critical,
        type = Some ''system''\<rparr>]
   \<and> processedLogs getTime localeCompare
     [\<lparr>timestamp = t2, source = ''b'', content = ''y'', severity = Some High,
        type = Some ''system''\<rparr>,
      \<lparr>timestamp = t1, source = ''a'', content = ''x'', severity = Some Critical,
        type = Some ''system''\<rparr>]
     [] BySeverity Desc None =
     [\<lparr>timestamp = t1, source = ''a'', content = ''x'', severity = Some Critical,
        type = Some ''system''\<rparr>,
      \<lparr>timestamp = t2, source = ''b'', content = ''y'', severity = Some High,
        type = Some ''system''\<rparr>]"
  by (simp add: processedLogs_def array_sort_def SortCompare_def comparefn_def comparison_def
      severityOrder_def or_num_def)










section \<open>Refresh cycles\<close>

lemma loadData_rejected:
  "isl r_logs \<or> isl r_alert \<or> isl r_threat \<Longrightarrow>
   loadData r_logs r_alert r_threat st = st\<lparr>loading := False\<rparr>"
  by (cases r_logs; cases r_alert; cases r_threat)
     (simp_all add: loadData_def loadData_settle_def loadData_begin_def)

lemma loadData_fulfilled:
  "loadData (Inr logsData) (Inr alertData) (Inr threatData) st =
     st\<lparr>logs := enhancedLogs logsData, alertSummary := Some alertData,
        threatSummary := Some threatData, loading := False\<rparr>"
  by (simp add: loadData_def loadData_settle_def loadData_begin_def)

lemma Analytics_loadData_analytics:
  "analytics (Analytics_loadData now r_an r_al r_nw r_mt st) =
     (case r_an of Inr d \<Rightarrow> Some d | Inl e \<Rightarrow> analytics st)"
  by (simp add: Analytics_loadData_def on_analytics_def on_alerts_def on_network_def
      on_metrics_def split: sum.splits)

lemma Analytics_loadData_alertsData:
  "alertsData (Analytics_loadData now r_an r_al r_nw r_mt st) =
     (case r_al of Inr d \<Rightarrow> d | Inl e \<Rightarrow> alertsData st)"
  by (simp add: Analytics_loadData_def on_analytics_def on_alerts_def on_network_def
      on_metrics_def split: sum.splits)

lemma Analytics_loadData_networkData:
  "networkData (Analytics_loadData now r_an r_al r_nw r_mt st) =
     (case r_nw of Inr d \<Rightarrow> d | Inl e \<Rightarrow> networkData st)"
  by (simp add: Analytics_loadData_def on_analytics_def on_alerts_def on_network_def
      on_metrics_def split: sum.splits)

lemma Analytics_loadData_metricsData:
  "metricsData (Analytics_loadData now r_an r_al r_nw r_mt st) =
     (case r_mt of Inr d \<Rightarrow> d | Inl e \<Rightarrow> metricsData st)"
  by (simp add: Analytics_loadData_def on_analytics_def on_alerts_def on_network_def
      on_metrics_def split: sum.splits)

text \<open>
  The four settlements of the analytics page commute, so \<open>Analytics_loadData\<close> stands
  for every order in which the four promises settle.
\<close>

lemma Analytics_settle_commute:
  "on_alerts r_al (on_analytics now r_an st) = on_analytics now r_an (on_alerts r_al st)"
  "on_network r_nw (on_analytics now r_an st) = on_analytics now r_an (on_network r_nw st)"
  "on_metrics r_mt (on_analytics now r_an st) = on_analytics now r_an (on_metrics r_mt st)"
  "on_network r_nw (on_alerts r_al st) = on_alerts r_al (on_network r_nw st)"
  "on_metrics r_mt (on_alerts r_al st) = on_alerts r_al (on_metrics r_mt st)"
  "on_metrics r_mt (on_network r_nw st) = on_network r_nw (on_metrics r_mt st)"
  by (simp_all add: on_analytics_def on_alerts_def on_network_def on_metrics_def
      split: sum.splits)

text \<open>
  C1, as stated: when one fetch of a cycle fails and another succeeds, the succeeding
  source gets its new payload. On the log page it does not: the fetch of the logs
  fails, the fetch of the alert summary succeeds, and the alert summary stays
  unpopulated.
\<close>

theorem loadData_discards_sibling_counterexample:
  "alertSummary
     (loadData (Inl (FetchError ''timeout''))
        (Inr \<lparr>total_alerts = 3, by_type = [(''intrusion'', 3)],
              by_severity = [(''high'', 3)]\<rparr>)
        (Inr \<lparr>threat_total_alerts = 3, alerts_last_hour = 1, alerts_last_day = 3,
              severity_counts = [(''high'', 3)], top_threats = [(''intrusion'', 3)]\<rparr>)
        SystemLogs_init) = None"
  by (simp add: loadData_def loadData_settle_def loadData_begin_def SystemLogs_init_def)

text \<open>
  C1, amended: a failed fetch never overwrites a payload. On the log page the three
  sources are written together: when any of the three fetches fails, the logs, the
  alert summary and the threat summary all keep their previous values, and when all
  succeed all three are written. On the analytics page each of the four sources is
  written when its own fetch succeeds and keeps its previous value when its own fetch
  fails, whatever the other three do. The state holds no mark of an error.
\<close>

theorem refresh_cycle_isolation:
  "(isl r_logs \<or> isl r_alert \<or> isl r_threat \<longrightarrow>
      logs (loadData r_logs r_alert r_threat st) = logs st
      \<and> alertSummary (loadData r_logs r_alert r_threat st) = alertSummary st
      \<and> threatSummary (loadData r_logs r_alert r_threat st) = threatSummary st)
   \<and> logs (loadData (Inr logsData) (Inr alertData) (Inr threatData) st) = enhancedLogs logsData
   \<and> alertSummary (loadData (Inr logsData) (Inr alertData) (Inr threatData) st) = Some alertData
   \<and> threatSummary (loadData (Inr logsData) (Inr alertData) (Inr threatData) st)
       = Some threatData
   \<and> analytics (Analytics_loadData now r_an r_al r_nw r_mt ast) =
       (case r_an of Inr d \<Rightarrow> Some d | Inl e \<Rightarrow> analytics ast)
   \<and> alertsData (Analytics_loadData now r_an r_al r_nw r_mt ast) =
       (case r_al of Inr d \<Rightarrow> d | Inl e \<Rightarrow> alertsData ast)
   \<and> networkData (Analytics_loadData now r_an r_al r_nw r_mt ast) =
       (case r_nw of Inr d \<Rightarrow> d | Inl e \<Rightarrow> networkData ast)
   \<and> metricsData (Analytics_loadData now r_an r_al r_nw r_mt ast) =
       (case r_mt of Inr d \<Rightarrow> d | Inl e \<Rightarrow> metricsData ast)"
  by (simp only: Analytics_loadData_analytics Analytics_loadData_alertsData
      Analytics_loadData_networkData Analytics_loadData_metricsData loadData_fulfilled)
     (simp add: loadData_rejected)

theorem refresh_cycle_isolation_witness:
  "isl (Inl (FetchError ''timeout'') :: LogEntry list fetched)
   \<and> alertSummary
     (loadData (Inl (FetchError ''timeout''))
        (Inr \<lparr>total_alerts = 3, by_type = [(''intrusion'', 3)],
              by_severity = [(''high'', 3)]\<rparr>)
        (Inr \<lparr>threat_total_alerts = 3, alerts_last_hour = 1, alerts_last_day = 3,
              severity_counts = [(''high'', 3)], top_threats = [(''intrusion'', 3)]\<rparr>)
        (SystemLogs_init\<lparr>alertSummary := Some \<lparr>total_alerts = 1, by_type = [],
              by_severity = []\<rparr>\<rparr>))
     = Some \<lparr>total_alerts = 1, by_type = [], by_severity = []\<rparr>
   \<and> alertsData
     (Analytics_loadData 1700000060000 (Inl (FetchError ''timeout'')) (Inr [''portscan''])
        (Inl (FetchError ''unreachable'')) (Inr [42 :: int])
        \<lparr>analytics = Some (7 :: nat), alertsData = [''old''], networkData = [True],
          metricsData = [41], an_loading = False, lastRefreshed = 1700000000000\<rparr>)
     = [''portscan'']
   \<and> analytics
     (Analytics_loadData 1700000060000 (Inl (FetchError ''timeout'')) (Inr [''portscan''])
        (Inl (FetchError ''unreachable'')) (Inr [42 :: int])
        \<lparr>analytics = Some (7 :: nat), alertsData = [''old''], networkData = [True],
          metricsData = [41], an_loading = False, lastRefreshed = 1700000000000\<rparr>)
     = Some 7"
  using refresh_cycle_isolation [of "Inl (FetchError ''timeout'')"
      "Inr \<lparr>total_alerts = 3, by_type = [(''intrusion'', 3)], by_severity = [(''high'', 3)]\<rparr>"
      "Inr \<lparr>threat_total_alerts = 3, alerts_last_hour = 1, alerts_last_day = 3,
              severity_counts = [(''high'', 3)], top_threats = [(''intrusion'', 3)]\<rparr>"
      "SystemLogs_init\<lparr>alertSummary := Some \<lparr>total_alerts = 1, by_type = [],
              by_severity = []\<rparr>\<rparr>"
      "[]" "\<lparr>total_alerts = 0, by_type = [], by_severity = []\<rparr>"
      "\<lparr>threat_total_alerts = 0, alerts_last_hour = 0, alerts_last_day = 0,
              severity_counts = [], top_threats = []\<rparr>"
      1700000060000 "Inl (FetchError ''timeout'')" "Inr [''portscan'']"
      "Inl (FetchError ''unreachable'')" "Inr [42 :: int]"
      "\<lparr>analytics = Some (7 :: nat), alertsData = [''old''], networkData = [True],
          metricsData = [41], an_loading = False, lastRefreshed = 1700000000000\<rparr>"]
  by (simp add: SystemLogs_init_def)

section \<open>The timer\<close>

text \<open>
  C8, as stated: a tick that finds a cycle in flight is skipped, so two cycles of one
  view never run at once. The effect passes \<open>loadData\<close> itself to \<open>setInterval\<close>, with no
  test of a cycle in flight: after the mount and one tick, with no fetch settled in
  between, two cycles are in flight.
\<close>

theorem tick_overlap_counterexample:
  "in_flight (SystemLogs_run [Mount, Tick]) = 2"
  by (simp add: SystemLogs_run_def SystemLogs_step_def)

text \<open>
  C8, amended: while the timer of a view is set, every tick starts a new cycle,
  whatever the number of cycles in flight: the number grows by one and the first half
  of \<open>loadData\<close> runs. No tick is skipped, and cycles of one view may overlap.
\<close>

theorem tick_never_skipped:
  "timer c \<Longrightarrow>
   in_flight (step start settle c Tick) = in_flight c + 1
   \<and> ui (step start settle c Tick) = start (ui c)"
  by simp

theorem tick_never_skipped_witness:
  "timer (SystemLogs_run [Mount])
   \<and> in_flight (SystemLogs_run [Mount]) = 1
   \<and> in_flight (SystemLogs_step (SystemLogs_run [Mount]) Tick) = 2"
  using tick_never_skipped [of "SystemLogs_run [Mount]" loadData_begin
      "\<lambda>(r_logs, r_alert, r_threat). loadData_settle r_logs r_alert r_threat"]
  by (simp add: SystemLogs_run_def SystemLogs_step_def)

section \<open>The overview\<close>

lemmas traffic_defs =
  inboundTraffic_def outboundTraffic_def totalInbound_def totalOutbound_def packetLoss_def

lemma gauges_empty:
  "gauges [] [] =
     \<lparr>cpu_gauge = Some 0, memory_gauge = Some 0, load_gauge = Some 0, swap_gauge = 2.68,
      disk_gauge = 15.926, process_count = 16, memory_used_gb = 21.464,
      memory_total_gb = 31.342, inbound = 0, outbound = 0, total_inbound = 0,
      total_outbound = 0, packet_loss = 0\<rparr>"
  by (simp add: gauges_def latestMetrics_def traffic_defs or_default_def)

lemma gauges_zero_sample:
  "gauges
     [\<lparr>cpu_percent = Some 0, memory_percent = Some 0, load = Some 0, swap_percent = Some 0,
       disk_percent = Some 0, processes = Some 0, memory_total = Some 0,
       memory_used = Some 0\<rparr>]
     [\<lparr>incoming_mbps = 0, outgoing_kbps = 0, total_incoming_gb = 0, total_outgoing_mb = 0,
       packet_loss_mb = 0\<rparr>] =
     \<lparr>cpu_gauge = Some 0, memory_gauge = Some 0, load_gauge = Some 0, swap_gauge = 2.68,
      disk_gauge = 15.926, process_count = 16, memory_used_gb = 21.464,
      memory_total_gb = 31.342, inbound = 0, outbound = 0, total_inbound = 0,
      total_outbound = 0, packet_loss = 0\<rparr>"
  by (simp add: gauges_def latestMetrics_def traffic_defs or_default_def round2_def)

lemma Overview_loadData_rejected:
  "isl r_status \<or> isl r_threat \<or> isl r_activity \<or> isl r_metrics \<or> isl r_network
     \<or> isl r_alert \<or> isl r_logs \<Longrightarrow>
   Overview_loadData now r_status r_threat r_activity r_metrics r_network r_alert r_logs st
     = st\<lparr>ov_loading := False\<rparr>"
  unfolding Overview_loadData_def
  by (cases r_status; cases r_threat; cases r_activity; cases r_metrics; cases r_network;
      cases r_alert; cases r_logs) simp_all

lemma Overview_loadData_fulfilled:
  "Overview_loadData now (Inr statusData) (Inr threatData) (Inr activityData) (Inr ms)
     (Inr nd) (Inr alertData) (Inr logsData) st
     = st\<lparr>ov_status := statusData, ov_threatSummary := Some threatData,
          userActivity := activityData, metrics := ms, ov_networkData := nd,
          ov_alertSummary := Some alertData, ov_logs := logsData, ov_lastRefreshed := now,
          ov_loading := False\<rparr>"
  by (simp add: Overview_loadData_def)

text \<open>
  C9, as stated: a source that has never been fetched with success shows as an
  explicit unpopulated state, apart from a measured zero. After a first cycle in which
  every fetch fails the page shows the same gauges as after a first cycle that fetched
  one metric sample and one network sample of zeros.
\<close>

theorem overview_defaults_counterexample:
  "Overview_render
     (Overview_loadData 60000 (Inl (FetchError ''unreachable'')) (Inl (FetchError ''unreachable''))
        (Inl (FetchError ''unreachable'')) (Inl (FetchError ''unreachable''))
        (Inl (FetchError ''unreachable'')) (Inl (FetchError ''unreachable''))
        (Inl (FetchError ''unreachable''))
        (Overview_init 0 :: (unit, unit, unit, unit) Overview_state))
   = Overview_render
     (Overview_loadData 60000 (Inr \<lparr>status = ''running'', uptime = 120, last_update = ''now''\<rparr>)
        (Inr ()) (Inr [])
        (Inr [\<lparr>cpu_percent = Some 0, memory_percent = Some 0, load = Some 0,
               swap_percent = Some 0, disk_percent = Some 0, processes = Some 0,
               memory_total = Some 0, memory_used = Some 0\<rparr>])
        (Inr [\<lparr>incoming_mbps = 0, outgoing_kbps = 0, total_incoming_gb = 0,
               total_outgoing_mb = 0, packet_loss_mb = 0\<rparr>])
        (Inr ()) (Inr [])
        (Overview_init 0 :: (unit, unit, unit, unit) Overview_state))"
  by (simp add: Overview_loadData_rejected Overview_loadData_fulfilled Overview_render_def
      gauges_empty gauges_zero_sample)
     (simp add: Overview_init_def gauges_empty)

text \<open>
  C9, amended: before the first cycle settles the page shows the loading screen. After
  a first cycle in which a fetch fails, no source has been populated and the page shows
  literal defaults: CPU 0, memory 0, load 0, swap 2.68, disk 15.926, process count 16,
  memory 21.464 of 31.342 GB and every traffic reading 0. A measured sample of zeros
  shows the same readings.
\<close>

theorem overview_defaults:
  "Overview_render (Overview_init now0 :: ('th, 'ua, 'as, 'lg) Overview_state) = LoadingScreen
   \<and> (isl r_status \<or> isl r_threat \<or> isl r_activity \<or> isl r_metrics \<or> isl r_network
        \<or> isl r_alert \<or> isl r_logs \<longrightarrow>
      Overview_render
        (Overview_loadData now r_status r_threat r_activity r_metrics r_network r_alert r_logs
          (Overview_init now0 :: ('th, 'ua, 'as, 'lg) Overview_state)) =
      Dashboard
        \<lparr>cpu_gauge = Some 0, memory_gauge = Some 0, load_gauge = Some 0, swap_gauge = 2.68,
         disk_gauge = 15.926, process_count = 16, memory_used_gb = 21.464,
         memory_total_gb = 31.342, inbound = 0, outbound = 0, total_inbound = 0,
         total_outbound = 0, packet_loss = 0\<rparr>)
   \<and> Overview_render
        (Overview_loadData now (Inr statusData) (Inr threatData) (Inr activityData)
          (Inr [\<lparr>cpu_percent = Some 0, memory_percent = Some 0, load = Some 0,
                 swap_percent = Some 0, disk_percent = Some 0, processes = Some 0,
                 memory_total = Some 0, memory_used = Some 0\<rparr>])
          (Inr [\<lparr>incoming_mbps = 0, outgoing_kbps = 0, total_incoming_gb = 0,
                 total_outgoing_mb = 0, packet_loss_mb = 0\<rparr>])
          (Inr alertData) (Inr logsData) (Overview_init now0 :: ('th, 'ua, 'as, 'lg) Overview_state)) =
      Dashboard
        \<lparr>cpu_gauge = Some 0, memory_gauge = Some 0, load_gauge = Some 0, swap_gauge = 2.68,
         disk_gauge = 15.926, process_count = 16, memory_used_gb = 21.464,
         memory_total_gb = 31.342, inbound = 0, outbound = 0, total_inbound = 0,
         total_outbound = 0, packet_loss = 0\<rparr>"
proof (intro conjI impI)
  show "Overview_render (Overview_init now0 :: ('th, 'ua, 'as, 'lg) Overview_state) = LoadingScreen"
    by (simp add: Overview_render_def Overview_init_def)
next
  assume "isl r_status \<or> isl r_threat \<or> isl r_activity \<or> isl r_metrics \<or> isl r_network
        \<or> isl r_alert \<or> isl r_logs"
  then show "Overview_render
        (Overview_loadData now r_status r_threat r_activity r_metrics r_network r_alert r_logs
          (Overview_init now0 :: ('th, 'ua, 'as, 'lg) Overview_state)) =
      Dashboard
        \<lparr>cpu_gauge = Some 0, memory_gauge = Some 0, load_gauge = Some 0, swap_gauge = 2.68,
         disk_gauge = 15.926, process_count = 16, memory_used_gb = 21.464,
         memory_total_gb = 31.342, inbound = 0, outbound = 0, total_inbound = 0,
         total_outbound = 0, packet_loss = 0\<rparr>"
    by (simp only: Overview_loadData_rejected)
       (simp add: Overview_render_def Overview_init_def gauges_empty)
next
  show "Overview_render
        (Overview_loadData now (Inr statusData) (Inr threatData) (Inr activityData)
          (Inr [\<lparr>cpu_percent = Some 0, memory_percent = Some 0, load = Some 0,
                 swap_percent = Some 0, disk_percent = Some 0, processes = Some 0,
                 memory_total = Some 0, memory_used = Some 0\<rparr>])
          (Inr [\<lparr>incoming_mbps = 0, outgoing_kbps = 0, total_incoming_gb = 0,
                 total_outgoing_mb = 0, packet_loss_mb = 0\<rparr>])
          (Inr alertData) (Inr logsData) (Overview_init now0 :: ('th, 'ua, 'as, 'lg) Overview_state)) =
      Dashboard
        \<lparr>cpu_gauge = Some 0, memory_gauge = Some 0, load_gauge = Some 0, swap_gauge = 2.68,
         disk_gauge = 15.926, process_count = 16, memory_used_gb = 21.464,
         memory_total_gb = 31.342, inbound = 0, outbound = 0, total_inbound = 0,
         total_outbound = 0, packet_loss = 0\<rparr>"
    by (simp only: Overview_loadData_fulfilled)
       (simp add: Overview_render_def gauges_zero_sample)
qed

theorem overview_defaults_witness:
  "isl (Inl (FetchError ''timeout'') :: MetricSample list fetched)
   \<and> Overview_render
        (Overview_loadData 60000
          (Inr \<lparr>status = ''running'', uptime = 120, last_update = ''now''\<rparr>) (Inr ()) (Inr [])
          (Inl (FetchError ''timeout''))
          (Inr [\<lparr>incoming_mbps = 5, outgoing_kbps = 7, total_incoming_gb = 1,
                 total_outgoing_mb = 2, packet_loss_mb = 0\<rparr>])
          (Inr ()) (Inr [])
          (Overview_init 0 :: (unit, unit, unit, unit) Overview_state)) =
      Dashboard
        \<lparr>cpu_gauge = Some 0, memory_gauge = Some 0, load_gauge = Some 0, swap_gauge = 2.68,
         disk_gauge = 15.926, process_count = 16, memory_used_gb = 21.464,
         memory_total_gb = 31.342, inbound = 0, outbound = 0, total_inbound = 0,
         total_outbound = 0, packet_loss = 0\<rparr>"
  using overview_defaults [of 0 "Inr \<lparr>status = ''running'', uptime = 120, last_update = ''now''\<rparr>"
      "Inr ()" "Inr ([] :: unit list)" "Inl (FetchError ''timeout'')"
      "Inr [\<lparr>incoming_mbps = 5, outgoing_kbps = 7, total_incoming_gb = 1,
                 total_outgoing_mb = 2, packet_loss_mb = 0\<rparr>]"
      "Inr ()" "Inr ([] :: unit list)" 60000
      "\<lparr>status = ''running'', uptime = 120, last_update = ''now''\<rparr>" "()"
      "[] :: unit list" "()" "[] :: unit list"]
  by simp

end
